theory Spec2Isabelle
  imports Complex_Main "HOL-Library.Sublist"
begin

section \<open>The quota-gated emotion analysis of the mood-tracking backend\<close>

text \<open>
  A shallow embedding of \<^verbatim>\<open>users/models.py\<close>, \<^verbatim>\<open>ai/services.py\<close> and
  \<^verbatim>\<open>ai/views.py\<close>. Conventions of the model:
  \<^item> a Python \<^verbatim>\<open>str\<close> is a \<open>string\<close>; each \<open>char\<close> stands for one code point
    below 256 (the Latin-1 range);
  \<^item> a \<^verbatim>\<open>date\<close> is an \<open>int\<close> (a day number), a \<^verbatim>\<open>datetime\<close> is an \<open>int\<close>
    (a timestamp); \<^verbatim>\<open>date.today()\<close> and \<^verbatim>\<open>timezone.now()\<close> are read from the
    environment of the request;
  \<^item> a Python \<^verbatim>\<open>int\<close> is an \<open>int\<close>; a score (a JSON number) is an exact \<open>rat\<close>;
  \<^item> a nullable column is an \<open>option\<close>;
  \<^item> the database row of the requesting user, the table of mood logs and the list of
    requests sent to the classification service form the state that the view threads.
\<close>

subsection \<open>users/models.py: UserProfile\<close>

record user_profile =
  plan :: string
  premium_expires_at :: "int option"
  daily_ai_calls :: int
  last_ai_calls_reset :: "int option"

text \<open>
  \<^verbatim>\<open>is_premium_active\<close>: three returns in the order of the source. A \<^verbatim>\<open>datetime\<close>
  is always truthy, so \<^verbatim>\<open>not self.premium_expires_at\<close> holds exactly for \<^verbatim>\<open>None\<close>.
\<close>

definition is_premium_active :: "int \<Rightarrow> user_profile \<Rightarrow> bool" where
  "is_premium_active now p =
     (if plan p \<noteq> ''PREMIUM'' then False
      else (case premium_expires_at p of
              None \<Rightarrow> False
            | Some expires \<Rightarrow> now < expires))"

subsection \<open>moodmate_backend/settings.py: the values the core reads\<close>

record settings =
  FREE_DAILY_AI_CALLS :: int
  PREMIUM_DAILY_AI_CALLS :: int
  HUGGINGFACE_API_TOKEN :: "string option"

subsection \<open>ai/views.py: the quota manager\<close>

text \<open>
  \<^verbatim>\<open>ensure_daily_reset\<close>: a \<^verbatim>\<open>date\<close> is always truthy, so the first disjunct holds
  exactly for \<^verbatim>\<open>None\<close>.
\<close>

definition ensure_daily_reset :: "int \<Rightarrow> user_profile \<Rightarrow> user_profile" where
  "ensure_daily_reset today p =
     (if (case last_ai_calls_reset p of None \<Rightarrow> True | Some d \<Rightarrow> d < today)
      then p\<lparr>daily_ai_calls := 0, last_ai_calls_reset := Some today\<rparr>
      else p)"

text \<open>The body of the 402 response: \<^verbatim>\<open>current_calls\<close>, \<^verbatim>\<open>max_calls\<close>, \<^verbatim>\<open>plan\<close>.\<close>

record quota_error =
  current_calls :: int
  max_calls :: int
  qe_plan :: string

text \<open>
  \<^verbatim>\<open>check_ai_quota\<close> returns the pair \<^verbatim>\<open>(has_quota, error_response)\<close>, which is
  either \<^verbatim>\<open>(True, None)\<close> or \<^verbatim>\<open>(False, Response(...))\<close>: the model returns
  \<open>None\<close> for the first and \<open>Some\<close> of the body of the response for the second. The
  profile that \<^verbatim>\<open>ensure_daily_reset\<close> saved is returned with it.
\<close>

definition check_ai_quota ::
  "settings \<Rightarrow> int \<Rightarrow> int \<Rightarrow> user_profile \<Rightarrow> quota_error option \<times> user_profile" where
  "check_ai_quota cfg today now p0 =
     (let p = ensure_daily_reset today p0;
          mx = (if is_premium_active now p then PREMIUM_DAILY_AI_CALLS cfg
                else FREE_DAILY_AI_CALLS cfg)
      in if daily_ai_calls p \<ge> mx
         then (Some \<lparr>current_calls = daily_ai_calls p, max_calls = mx, qe_plan = plan p\<rparr>, p)
         else (None, p))"

definition increment_ai_calls :: "user_profile \<Rightarrow> user_profile" where
  "increment_ai_calls p = p\<lparr>daily_ai_calls := daily_ai_calls p + 1\<rparr>"

subsection \<open>Python strings and numbers\<close>

text \<open>
  \<^verbatim>\<open>str.lower()\<close> on the code points below 256: the letters A to Z, and the
  capital letters of Latin-1 (0xC0 to 0xDE without the multiplication sign 0xD7), move
  up by 32.
\<close>

definition lower_char :: "char \<Rightarrow> char" where
  "lower_char c =
     (let n = (of_char c :: nat)
      in if (65 \<le> n \<and> n \<le> 90) \<or> (192 \<le> n \<and> n \<le> 222 \<and> n \<noteq> 215)
         then char_of (n + 32) else c)"

definition str_lower :: "string \<Rightarrow> string" where
  "str_lower s = map lower_char s"

text \<open>
  \<^verbatim>\<open>str.strip()\<close> removes the leading and trailing white space; below 256 the white
  space of Python is tab to carriage return, the four separators 0x1C to 0x1F, the
  space, 0x85 and 0xA0.
\<close>

definition isspace :: "char \<Rightarrow> bool" where
  "isspace c =
     (let n = (of_char c :: nat)
      in (9 \<le> n \<and> n \<le> 13) \<or> (28 \<le> n \<and> n \<le> 32) \<or> n = 133 \<or> n = 160)"

definition str_strip :: "string \<Rightarrow> string" where
  "str_strip s = rev (dropWhile isspace (rev (dropWhile isspace s)))"

text \<open>\<^verbatim>\<open>int(x)\<close> of a number truncates towards zero.\<close>

definition py_int :: "rat \<Rightarrow> int" where
  "py_int x = (if 0 \<le> x then \<lfloor>x\<rfloor> else \<lceil>x\<rceil>)"

text \<open>
  \<^verbatim>\<open>round(x, ndigits)\<close>: the nearest multiple of \<open>10 ^ -ndigits\<close>, a tie going to
  the even one. (On a binary float the tie is decided by the float's exact value; the
  model's scores are exact.)
\<close>

definition py_round :: "rat \<Rightarrow> nat \<Rightarrow> rat" where
  "py_round x ndigits =
     (let y = x * 10 ^ ndigits;
          f = \<lfloor>y\<rfloor>;
          d = y - of_int f
      in of_int (if d < 1 / 2 then f
                 else if 1 / 2 < d then f + 1
                 else if even f then f else f + 1) / 10 ^ ndigits)"

subsection \<open>ai/services.py: HFClient.analyze_emotion\<close>

text \<open>The value \<^verbatim>\<open>response.json()\<close> returns.\<close>

datatype json =
    JNull
  | JBool bool
  | JNum rat
  | JStr string
  | JList "json list"
  | JDict "(string \<times> json) list"

text \<open>
  The two \<^verbatim>\<open>except\<close> clauses of the method tell two classes of exception apart:
  \<^verbatim>\<open>requests.exceptions.RequestException\<close> and every other \<^verbatim>\<open>Exception\<close>
  (\<^verbatim>\<open>KeyError\<close>, \<^verbatim>\<open>TypeError\<close>, \<^verbatim>\<open>ValueError\<close>, \<^verbatim>\<open>AttributeError\<close>).
\<close>

datatype exn = RequestException | Exception

text \<open>
  What the classification service does with one request, seen from the three library
  calls of the method: \<^verbatim>\<open>requests.post(..., timeout=10)\<close> raises (no connection, or
  the timeout), or \<^verbatim>\<open>response.raise_for_status()\<close> raises (an error status), or
  \<^verbatim>\<open>response.json()\<close> raises (the body is not JSON), or the body decodes to a value.
\<close>

datatype http_exchange =
    PostRaises
  | RaiseForStatusRaises
  | JsonRaises
  | Json json

text \<open>The dictionary \<^verbatim>\<open>{'label': ..., 'score': ...}\<close>; \<open>None\<close> for an absent
  \<^verbatim>\<open>'ai_unavailable'\<close>.\<close>

record emotion_result =
  label :: string
  score :: rat
  ai_unavailable :: "bool option"

definition neutral_fallback :: emotion_result where
  "neutral_fallback = \<lparr>label = ''neutral'', score = 1 / 2, ai_unavailable = Some True\<rparr>"

text \<open>
  The key of \<^verbatim>\<open>max\<close>, \<^verbatim>\<open>lambda x: x['score']\<close>: a \<^verbatim>\<open>KeyError\<close> on a dictionary
  without the key, a \<^verbatim>\<open>TypeError\<close> on a value that is no dictionary. A score that is
  no number (\<^verbatim>\<open>bool\<close> is a number in Python) makes the source raise a \<^verbatim>\<open>TypeError\<close>
  later, in a comparison of \<^verbatim>\<open>max\<close> or at the latest in \<^verbatim>\<open>round\<close>; the model
  raises it here, which the handlers cannot tell apart.
\<close>

definition score_key :: "json \<Rightarrow> exn + rat" where
  "score_key x =
     (case x of
        JDict kvs \<Rightarrow>
          (case map_of kvs ''score'' of
             None \<Rightarrow> Inl Exception
           | Some (JNum r) \<Rightarrow> Inr r
           | Some (JBool b) \<Rightarrow> Inr (if b then 1 else 0)
           | Some _ \<Rightarrow> Inl Exception)
      | _ \<Rightarrow> Inl Exception)"

text \<open>
  \<^verbatim>\<open>max(emotions, key=...)\<close>, the loop of the builtin: the key of every item is
  computed, an item replaces the best one so far only when its key is strictly greater,
  and an empty sequence raises \<^verbatim>\<open>ValueError\<close>.
\<close>

fun py_max :: "(rat \<times> json) option \<Rightarrow> json list \<Rightarrow> exn + json" where
  "py_max None [] = Inl Exception"
| "py_max (Some (v, x)) [] = Inr x"
| "py_max best (y # ys) =
     (case score_key y of
        Inl e \<Rightarrow> Inl e
      | Inr w \<Rightarrow>
          (case best of
             None \<Rightarrow> py_max (Some (w, y)) ys
           | Some (v, x) \<Rightarrow> if v < w then py_max (Some (w, y)) ys else py_max best ys))"

text \<open>\<^verbatim>\<open>top_emotion['label'].lower()\<close>: only a \<^verbatim>\<open>str\<close> has the method.\<close>

definition label_lower :: "json \<Rightarrow> exn + string" where
  "label_lower x =
     (case x of
        JDict kvs \<Rightarrow>
          (case map_of kvs ''label'' of
             Some (JStr l) \<Rightarrow> Inr (str_lower l)
           | _ \<Rightarrow> Inl Exception)
      | _ \<Rightarrow> Inl Exception)"

definition top_emotion_result :: "json list \<Rightarrow> exn + emotion_result" where
  "top_emotion_result emotions =
     (case py_max None emotions of
        Inl e \<Rightarrow> Inl e
      | Inr top_emotion \<Rightarrow>
          (case label_lower top_emotion of
             Inl e \<Rightarrow> Inl e
           | Inr l \<Rightarrow>
               (case score_key top_emotion of
                  Inl e \<Rightarrow> Inl e
                | Inr sc \<Rightarrow> Inr \<lparr>label = l, score = py_round sc 3, ai_unavailable = None\<rparr>)))"

text \<open>The body of the \<^verbatim>\<open>try\<close>, from the request on.\<close>

definition try_request :: "http_exchange \<Rightarrow> exn + emotion_result" where
  "try_request ex =
     (case ex of
        PostRaises \<Rightarrow> Inl RequestException
      | RaiseForStatusRaises \<Rightarrow> Inl RequestException
      | JsonRaises \<Rightarrow> Inl Exception
      | Json result \<Rightarrow>
          (case result of
             JList (r0 # rs) \<Rightarrow>
               top_emotion_result (case r0 of JList inner \<Rightarrow> inner | _ \<Rightarrow> r0 # rs)
           | _ \<Rightarrow> Inr neutral_fallback))"

text \<open>
  The method. \<^verbatim>\<open>not self.api_token\<close> holds for \<^verbatim>\<open>None\<close> and for the empty string.
  The second component is the list of the texts posted to the service so far.
\<close>

definition HFClient_analyze_emotion ::
  "string option \<Rightarrow> (string \<Rightarrow> http_exchange) \<Rightarrow> string \<Rightarrow> string list
     \<Rightarrow> emotion_result \<times> string list" where
  "HFClient_analyze_emotion api_token service text posted =
     (if api_token = None \<or> api_token = Some []
      then (neutral_fallback, posted)
      else (case try_request (service text) of
              Inl RequestException \<Rightarrow> (neutral_fallback, posted @ [text])
            | Inl Exception \<Rightarrow> (neutral_fallback, posted @ [text])
            | Inr r \<Rightarrow> (r, posted @ [text])))"

subsection \<open>ai/services.py: HFClient.generate_advice\<close>

text \<open>The dictionary \<^verbatim>\<open>self.advice_templates\<close>, in the order of the source.\<close>

definition advice_templates :: "(string \<times> string) list" where
  "advice_templates =
     [(''joy'', ''You're feeling great! Consider sharing this positive energy with others or engaging in activities you love.''),
      (''sadness'', ''It's okay to feel sad sometimes. Try gentle activities like listening to music, taking a walk, or talking to someone you trust.''),
      (''anger'', ''Take a moment to breathe deeply. Consider what's causing this feeling and whether there's a constructive way to address it.''),
      (''fear'', ''Fear is natural. Break down what's worrying you into smaller, manageable steps. You're stronger than you think.''),
      (''surprise'', ''Unexpected moments can be opportunities for growth. Take time to process what happened and how you feel about it.''),
      (''disgust'', ''Strong negative feelings can be signals. Consider what boundaries you might need to set or changes you want to make.''),
      (''anxious'', ''Try the 4-7-8 breathing technique: breathe in for 4, hold for 7, exhale for 8. Grounding exercises can also help.''),
      (''stressed'', ''Take a 5-minute break. Try progressive muscle relaxation or a short walk. Remember that stress is temporary.''),
      (''calm'', ''You're in a peaceful state. This is a great time for reflection, planning, or enjoying the present moment.''),
      (''excited'', ''Channel this positive energy into something meaningful. Consider activities that align with your goals and values.''),
      (''tired'', ''Rest is important for your wellbeing. Consider what your body and mind need - sleep, nutrition, or a mental break.''),
      (''content'', ''Contentment is a beautiful state. Take a moment to appreciate what's going well in your life right now.'')]"

text \<open>The dictionary \<^verbatim>\<open>emotion_mapping\<close> of \<^verbatim>\<open>generate_advice\<close>.\<close>

definition emotion_mapping :: "(string \<times> string) list" where
  "emotion_mapping =
     [(''admiration'', ''joy''),
      (''amusement'', ''joy''),
      (''approval'', ''content''),
      (''caring'', ''joy''),
      (''curiosity'', ''excited''),
      (''desire'', ''excited''),
      (''disappointment'', ''sadness''),
      (''disapproval'', ''anger''),
      (''embarrassment'', ''anxious''),
      (''excitement'', ''excited''),
      (''gratitude'', ''content''),
      (''grief'', ''sadness''),
      (''love'', ''joy''),
      (''nervousness'', ''anxious''),
      (''optimism'', ''joy''),
      (''pride'', ''content''),
      (''realization'', ''surprise''),
      (''relief'', ''calm''),
      (''remorse'', ''sadness''),
      (''confusion'', ''anxious'')]"

text \<open>\<^verbatim>\<open>d.get(key, default)\<close> on a dictionary given by its items.\<close>

definition dict_get :: "('k \<times> 'v) list \<Rightarrow> 'k \<Rightarrow> 'v \<Rightarrow> 'v" where
  "dict_get d k dflt = (case map_of d k of None \<Rightarrow> dflt | Some v \<Rightarrow> v)"

definition default_advice :: string where
  "default_advice =
     ''Take a moment to acknowledge your feelings. Remember that all emotions are valid and temporary.''"

definition advice_disclaimer :: string where
  "advice_disclaimer =
     '' Remember, this is general wellness advice and not a substitute for professional mental health support.''"

text \<open>The parameter \<^verbatim>\<open>text\<close> of the method is not used by its body.\<close>

definition generate_advice :: "string \<Rightarrow> string" where
  "generate_advice emotion_label =
     (let emotion_key = str_lower emotion_label;
          advice_key = dict_get emotion_mapping emotion_key emotion_key;
          advice = dict_get advice_templates advice_key default_advice
      in advice @ advice_disclaimer)"

subsection \<open>ai/services.py: SpotifyRecommendationService\<close>

record playlist =
  title :: string
  url :: string

definition mood_playlists :: "(string \<times> playlist list) list" where
  "mood_playlists =
     [(''happy'',
        [\<lparr>title = ''Feel Good Hits'', url = ''https://open.spotify.com/playlist/37i9dQZF1DX3rxVfibe1L0''\<rparr>,
         \<lparr>title = ''Happy Pop'', url = ''https://open.spotify.com/playlist/37i9dQZF1DXdPec7aLTmlC''\<rparr>]),
      (''sad'',
        [\<lparr>title = ''Sad Songs'', url = ''https://open.spotify.com/playlist/37i9dQZF1DX7qK8ma5wgG1''\<rparr>,
         \<lparr>title = ''Melancholy Indie'', url = ''https://open.spotify.com/playlist/37i9dQZF1DWX83CujKHHOn''\<rparr>]),
      (''anxious'',
        [\<lparr>title = ''Calm & Peaceful'', url = ''https://open.spotify.com/playlist/37i9dQZF1DWU0ScTcjJBdj''\<rparr>,
         \<lparr>title = ''Focus Flow'', url = ''https://open.spotify.com/playlist/37i9dQZF1DWZeKCadgRdKQ''\<rparr>]),
      (''stressed'',
        [\<lparr>title = ''Stress Relief'', url = ''https://open.spotify.com/playlist/37i9dQZF1DX4sWSpwq3LiO''\<rparr>,
         \<lparr>title = ''Ambient Relaxation'', url = ''https://open.spotify.com/playlist/37i9dQZF1DX0SM0LYsmbMT''\<rparr>]),
      (''calm'',
        [\<lparr>title = ''Peaceful Piano'', url = ''https://open.spotify.com/playlist/37i9dQZF1DX4sWSpwq3LiO''\<rparr>,
         \<lparr>title = ''Nature Sounds'', url = ''https://open.spotify.com/playlist/37i9dQZF1DWU0ScTcjJBdj''\<rparr>]),
      (''excited'',
        [\<lparr>title = ''Energy Boost'', url = ''https://open.spotify.com/playlist/37i9dQZF1DX76Wlfdnj7AP''\<rparr>,
         \<lparr>title = ''Upbeat Pop'', url = ''https://open.spotify.com/playlist/37i9dQZF1DXdPec7aLTmlC''\<rparr>]),
      (''angry'',
        [\<lparr>title = ''Anger Management'', url = ''https://open.spotify.com/playlist/37i9dQZF1DX4sWSpwq3LiO''\<rparr>,
         \<lparr>title = ''Calming Classical'', url = ''https://open.spotify.com/playlist/37i9dQZF1DWU0ScTcjJBdj''\<rparr>]),
      (''energetic'',
        [\<lparr>title = ''Workout Hits'', url = ''https://open.spotify.com/playlist/37i9dQZF1DX76Wlfdnj7AP''\<rparr>,
         \<lparr>title = ''High Energy'', url = ''https://open.spotify.com/playlist/37i9dQZF1DXdxcBWuJkbcy''\<rparr>]),
      (''tired'',
        [\<lparr>title = ''Gentle Acoustic'', url = ''https://open.spotify.com/playlist/37i9dQZF1DX0XUsuxWHRQd''\<rparr>,
         \<lparr>title = ''Soft Rock'', url = ''https://open.spotify.com/playlist/37i9dQZF1DWXRqgorJj26U''\<rparr>]),
      (''content'',
        [\<lparr>title = ''Chill Vibes'', url = ''https://open.spotify.com/playlist/37i9dQZF1DX0XUsuxWHRQd''\<rparr>,
         \<lparr>title = ''Sunday Morning'', url = ''https://open.spotify.com/playlist/37i9dQZF1DWU0ScTcjJBdj''\<rparr>])]"

definition emotion_to_mood :: "(string \<times> string) list" where
  "emotion_to_mood =
     [(''joy'', ''happy''),
      (''sadness'', ''sad''),
      (''fear'', ''anxious''),
      (''anger'', ''angry''),
      (''surprise'', ''excited''),
      (''disgust'', ''angry'')]"

text \<open>
  \<^verbatim>\<open>d[key]\<close>: a \<^verbatim>\<open>KeyError\<close> when the key is absent. The default of the last line
  of \<^verbatim>\<open>get_recommendations\<close>, \<^verbatim>\<open>self.mood_playlists['calm']\<close>, is evaluated before
  \<^verbatim>\<open>get\<close> is called, whatever the key.
\<close>

definition dict_item :: "('k \<times> 'v) list \<Rightarrow> 'k \<Rightarrow> exn + 'v" where
  "dict_item d k = (case map_of d k of None \<Rightarrow> Inl Exception | Some v \<Rightarrow> Inr v)"

definition get_recommendations :: "string \<Rightarrow> exn + playlist list" where
  "get_recommendations mood =
     (let mood_key = str_lower mood;
          playlist_key = dict_get emotion_to_mood mood_key mood_key
      in case dict_item mood_playlists ''calm'' of
           Inl e \<Rightarrow> Inl e
         | Inr calm \<Rightarrow> Inr (dict_get mood_playlists playlist_key calm))"

subsection \<open>moods/models.py: MoodLog\<close>

text \<open>
  The columns that \<^verbatim>\<open>analyze_emotion\<close> writes (\<open>mood_note\<close> is the column
  \<^verbatim>\<open>note\<close>). The owner is the requesting user, the only user of the model; the key
  of a row is its position in the table.
\<close>

record mood_log =
  mood :: string
  intensity :: int
  mood_note :: string
  detected_emotion :: string
  detected_confidence :: rat
  advice :: string

subsection \<open>ai/views.py: analyze_emotion\<close>

text \<open>
  The state one request reads and writes: the profile row of \<^verbatim>\<open>request.user\<close>, the
  table of mood logs, and the texts posted to the classification service.
\<close>

record state =
  profile :: user_profile
  mood_logs :: "mood_log list"
  hf_requests :: "string list"

text \<open>
  What the request reads and does not write: the settings, \<^verbatim>\<open>date.today()\<close>,
  \<^verbatim>\<open>timezone.now()\<close>, and the answer of the classification service to a text.
\<close>

record env =
  django_settings :: settings
  date_today :: int
  timezone_now :: int
  hf_service :: "string \<Rightarrow> http_exchange"

text \<open>
  \<^verbatim>\<open>request.data\<close>: the keys \<^verbatim>\<open>text\<close> and \<^verbatim>\<open>mood\<close> may be absent (\<open>None\<close>),
  \<^verbatim>\<open>persist\<close> is read as a truth value with default \<^verbatim>\<open>False\<close>.
\<close>

record request_data =
  data_text :: "string option"
  data_mood :: "string option"
  data_persist :: bool

record analysis_data =
  emotion_label :: string
  emotion_score :: rat
  response_advice :: string
  music_recommendations :: "playlist list"
  disclaimer :: string
  response_ai_unavailable :: bool
  mood_log_id :: "nat option"

datatype response =
    HTTP_402_PAYMENT_REQUIRED quota_error
  | HTTP_400_BAD_REQUEST string
  | HTTP_200_OK analysis_data
  | HTTP_500_INTERNAL_SERVER_ERROR

text \<open>
  The view, in the order of the source. Writes to the database succeed in the model, so
  the \<^verbatim>\<open>except\<close> clause of the view is reached only from the one step of the
  \<^verbatim>\<open>try\<close> block that can raise in the model, the recommendation lookup.
  \<^verbatim>\<open>user_mood or emotion_result['label']\<close> takes the label for an absent and for an
  empty mood.
\<close>

definition analyze_emotion :: "env \<Rightarrow> request_data \<Rightarrow> state \<Rightarrow> response \<times> state" where
  "analyze_emotion e request s =
     (case check_ai_quota (django_settings e) (date_today e) (timezone_now e) (profile s) of
        (Some error_response, p) \<Rightarrow>
          (HTTP_402_PAYMENT_REQUIRED error_response, s\<lparr>profile := p\<rparr>)
      | (None, p) \<Rightarrow>
          (let text = str_strip (case data_text request of None \<Rightarrow> [] | Some t \<Rightarrow> t);
               user_mood = data_mood request;
               persist = data_persist request
           in if text = []
              then (HTTP_400_BAD_REQUEST ''Text is required for analysis'', s\<lparr>profile := p\<rparr>)
              else if 1000 < length text
              then (HTTP_400_BAD_REQUEST ''Text cannot exceed 1000 characters'',
                    s\<lparr>profile := p\<rparr>)
              else
                (case HFClient_analyze_emotion (HUGGINGFACE_API_TOKEN (django_settings e))
                        (hf_service e) text (hf_requests s) of
                   (emotion_result, posted) \<Rightarrow>
                     (let adv = generate_advice (label emotion_result)
                      in case get_recommendations (label emotion_result) of
                           Inl ex \<Rightarrow>
                             (HTTP_500_INTERNAL_SERVER_ERROR,
                              s\<lparr>profile := p, hf_requests := posted\<rparr>)
                         | Inr music \<Rightarrow>
                             (let p' = increment_ai_calls p;
                                  entry =
                                    \<lparr>mood = (case user_mood of
                                               None \<Rightarrow> label emotion_result
                                             | Some m \<Rightarrow>
                                                 if m = [] then label emotion_result else m),
                                     intensity =
                                       min 10 (max 1 (py_int (score emotion_result * 10))),
                                     mood_note = take 1000 text,
                                     detected_emotion = label emotion_result,
                                     detected_confidence = score emotion_result,
                                     advice = adv\<rparr>;
                                  logs = (if persist then mood_logs s @ [entry] else mood_logs s)
                              in (HTTP_200_OK
                                    \<lparr>emotion_label = label emotion_result,
                                     emotion_score = score emotion_result,
                                     response_advice = adv,
                                     music_recommendations = music,
                                     disclaimer =
                                       ''This is general wellness advice and not a substitute for professional mental health support.'',
                                     response_ai_unavailable =
                                       (case ai_unavailable emotion_result of
                                          None \<Rightarrow> False
                                        | Some b \<Rightarrow> b),
                                     mood_log_id =
                                       (if persist then Some (length (mood_logs s)) else None)\<rparr>,
                                  \<lparr>profile = p', mood_logs = logs, hf_requests = posted\<rparr>))))))"

subsection \<open>The payload entries of the specification\<close>

text \<open>
  The entry \<^verbatim>\<open>{"label": l, "score": s}\<close> that the classification service emits
  for a pair \<open>(l, s)\<close>; the theorems on the two payload shapes are stated with it.
\<close>

definition entry :: "string \<times> rat \<Rightarrow> json" where
  "entry e = JDict [(''label'', JStr (fst e)), (''score'', JNum (snd e))]"

section \<open>The quota manager\<close>

text \<open>
  C4. \<^verbatim>\<open>ensure_daily_reset\<close> sets the counter of calls to 0 and the date of the last
  reset to today exactly when that date is null or strictly before today, leaving the
  profile as it is otherwise; and a second call on the same day changes nothing: it
  returns what the first call has returned.
\<close>

theorem ensure_daily_reset_exactly_when_due_and_idempotent:
  "(last_ai_calls_reset p = None \<or> (\<exists>d. last_ai_calls_reset p = Some d \<and> d < day)
      \<longrightarrow> ensure_daily_reset day p = p\<lparr>daily_ai_calls := 0, last_ai_calls_reset := Some day\<rparr>)
   \<and> (\<not> (last_ai_calls_reset p = None \<or> (\<exists>d. last_ai_calls_reset p = Some d \<and> d < day))
      \<longrightarrow> ensure_daily_reset day p = p)
   \<and> ensure_daily_reset day (ensure_daily_reset day p) = ensure_daily_reset day p"
  by (auto simp: ensure_daily_reset_def split: option.splits)

text \<open>
  On day 20, a profile with 3 calls last reset on day 19 is reset; the same profile last
  reset on day 20 keeps its 3 calls; and the second call returns what the first did.
\<close>

theorem ensure_daily_reset_witness:
  "ensure_daily_reset 20
     \<lparr>plan = ''FREE'', premium_expires_at = None, daily_ai_calls = 3,
      last_ai_calls_reset = Some 19\<rparr>
   = \<lparr>plan = ''FREE'', premium_expires_at = None, daily_ai_calls = 0,
      last_ai_calls_reset = Some 20\<rparr>
   \<and> ensure_daily_reset 20
     \<lparr>plan = ''FREE'', premium_expires_at = None, daily_ai_calls = 3,
      last_ai_calls_reset = Some 20\<rparr>
   = \<lparr>plan = ''FREE'', premium_expires_at = None, daily_ai_calls = 3,
      last_ai_calls_reset = Some 20\<rparr>
   \<and> ensure_daily_reset 20 (ensure_daily_reset 20
     \<lparr>plan = ''FREE'', premium_expires_at = None, daily_ai_calls = 3,
      last_ai_calls_reset = Some 19\<rparr>)
   = ensure_daily_reset 20
     \<lparr>plan = ''FREE'', premium_expires_at = None, daily_ai_calls = 3,
      last_ai_calls_reset = Some 19\<rparr>"
proof -
  let ?stale = "\<lparr>plan = ''FREE'', premium_expires_at = None, daily_ai_calls = 3,
                  last_ai_calls_reset = Some (19::int)\<rparr>"
  let ?fresh = "\<lparr>plan = ''FREE'', premium_expires_at = None, daily_ai_calls = 3,
                  last_ai_calls_reset = Some (20::int)\<rparr>"
  have a: "ensure_daily_reset 20 ?stale
             = ?stale\<lparr>daily_ai_calls := 0, last_ai_calls_reset := Some 20\<rparr>"
    using ensure_daily_reset_exactly_when_due_and_idempotent [of ?stale 20] by simp
  have b: "ensure_daily_reset 20 ?fresh = ?fresh"
    using ensure_daily_reset_exactly_when_due_and_idempotent [of ?fresh 20] by simp
  have c: "ensure_daily_reset 20 (ensure_daily_reset 20 ?stale) = ensure_daily_reset 20 ?stale"
    using ensure_daily_reset_exactly_when_due_and_idempotent [of ?stale 20] by blast
  from a b c show ?thesis by simp
qed

text \<open>
  C3. \<^verbatim>\<open>check_ai_quota\<close> works on the profile that the daily reset returns; the
  ceiling \<open>mx\<close> is the premium one exactly when the plan is PREMIUM and the expiry is a
  timestamp strictly after now, and the free one otherwise; the call is allowed (no error
  response) if and only if the counter is below the ceiling, and the error response of a
  refused call carries the counter, the ceiling and the plan.
\<close>

theorem check_ai_quota_resets_then_compares_with_plan_ceiling:
  "check_ai_quota cfg day t p0 = (r, p) \<Longrightarrow>
     p = ensure_daily_reset day p0 \<and>
     (let mx = (if plan p = ''PREMIUM'' \<and> (\<exists>x. premium_expires_at p = Some x \<and> t < x)
                then PREMIUM_DAILY_AI_CALLS cfg else FREE_DAILY_AI_CALLS cfg)
      in (r = None \<longleftrightarrow> daily_ai_calls p < mx) \<and>
         (\<forall>q. r = Some q \<longrightarrow>
            current_calls q = daily_ai_calls p \<and> max_calls q = mx \<and> qe_plan q = plan p))"
  by (auto simp: check_ai_quota_def is_premium_active_def Let_def
           split: option.splits if_splits)

text \<open>
  A premium user whose expiry is day 1000 and who has made 7 calls today: allowed at time
  500 (ceiling 200), refused at time 1000 (the expiry is no longer in the future, ceiling
  5) with the counter, the ceiling and the plan in the response.
\<close>

theorem check_ai_quota_witness:
  "check_ai_quota
     \<lparr>FREE_DAILY_AI_CALLS = 5, PREMIUM_DAILY_AI_CALLS = 200, HUGGINGFACE_API_TOKEN = None\<rparr>
     20 500
     \<lparr>plan = ''PREMIUM'', premium_expires_at = Some 1000, daily_ai_calls = 7,
      last_ai_calls_reset = Some 20\<rparr>
   = (None,
      \<lparr>plan = ''PREMIUM'', premium_expires_at = Some 1000, daily_ai_calls = 7,
       last_ai_calls_reset = Some 20\<rparr>)
   \<and> check_ai_quota
     \<lparr>FREE_DAILY_AI_CALLS = 5, PREMIUM_DAILY_AI_CALLS = 200, HUGGINGFACE_API_TOKEN = None\<rparr>
     20 1000
     \<lparr>plan = ''PREMIUM'', premium_expires_at = Some 1000, daily_ai_calls = 7,
      last_ai_calls_reset = Some 20\<rparr>
   = (Some \<lparr>current_calls = 7, max_calls = 5, qe_plan = ''PREMIUM''\<rparr>,
      \<lparr>plan = ''PREMIUM'', premium_expires_at = Some 1000, daily_ai_calls = 7,
       last_ai_calls_reset = Some 20\<rparr>)"
proof -
  let ?cfg = "\<lparr>FREE_DAILY_AI_CALLS = 5, PREMIUM_DAILY_AI_CALLS = 200,
                HUGGINGFACE_API_TOKEN = None\<rparr>"
  let ?p = "\<lparr>plan = ''PREMIUM'', premium_expires_at = Some (1000::int), daily_ai_calls = 7,
              last_ai_calls_reset = Some (20::int)\<rparr>"
  obtain r1 p1 where c1: "check_ai_quota ?cfg 20 500 ?p = (r1, p1)"
    by (cases "check_ai_quota ?cfg 20 500 ?p")
  obtain r2 p2 where c2: "check_ai_quota ?cfg 20 1000 ?p = (r2, p2)"
    by (cases "check_ai_quota ?cfg 20 1000 ?p")
  have "r1 = None \<and> p1 = ?p"
    using check_ai_quota_resets_then_compares_with_plan_ceiling [OF c1]
    by (auto simp: ensure_daily_reset_def)
  moreover have "\<exists>q. r2 = Some q" "p2 = ?p"
    using check_ai_quota_resets_then_compares_with_plan_ceiling [OF c2]
    by (auto simp: ensure_daily_reset_def)
  moreover then have "r2 = Some \<lparr>current_calls = 7, max_calls = 5, qe_plan = ''PREMIUM''\<rparr>"
    using check_ai_quota_resets_then_compares_with_plan_ceiling [OF c2]
    by (auto simp: ensure_daily_reset_def)
  ultimately show ?thesis using c1 c2 by simp
qed

text \<open>
  C10. A profile whose plan is PREMIUM and whose expiry is null is not premium-active, and
  the quota check compares its counter with the free ceiling: the call is refused exactly
  when the counter has reached \<^verbatim>\<open>FREE_DAILY_AI_CALLS\<close>, which is the ceiling the
  response reports.
\<close>

theorem premium_without_expiry_gets_free_ceiling:
  "plan p0 = ''PREMIUM'' \<Longrightarrow> premium_expires_at p0 = None \<Longrightarrow>
     \<not> is_premium_active t p0 \<and>
     check_ai_quota cfg day t p0 =
       (let p = ensure_daily_reset day p0
        in if FREE_DAILY_AI_CALLS cfg \<le> daily_ai_calls p
           then (Some \<lparr>current_calls = daily_ai_calls p, max_calls = FREE_DAILY_AI_CALLS cfg,
                       qe_plan = ''PREMIUM''\<rparr>, p)
           else (None, p))"
  by (simp add: check_ai_quota_def is_premium_active_def ensure_daily_reset_def Let_def
           split: option.splits)

text \<open>
  With ceilings 5 and 200, a PREMIUM profile without expiry that has made 5 calls today
  is refused, the response reporting the ceiling 5.
\<close>

theorem premium_without_expiry_witness:
  "\<not> is_premium_active 500
       \<lparr>plan = ''PREMIUM'', premium_expires_at = None, daily_ai_calls = 5,
        last_ai_calls_reset = Some 20\<rparr>
   \<and> check_ai_quota
       \<lparr>FREE_DAILY_AI_CALLS = 5, PREMIUM_DAILY_AI_CALLS = 200, HUGGINGFACE_API_TOKEN = None\<rparr>
       20 500
       \<lparr>plan = ''PREMIUM'', premium_expires_at = None, daily_ai_calls = 5,
        last_ai_calls_reset = Some 20\<rparr>
     = (Some \<lparr>current_calls = 5, max_calls = 5, qe_plan = ''PREMIUM''\<rparr>,
        \<lparr>plan = ''PREMIUM'', premium_expires_at = None, daily_ai_calls = 5,
         last_ai_calls_reset = Some 20\<rparr>)"
  using premium_without_expiry_gets_free_ceiling
    [of "\<lparr>plan = ''PREMIUM'', premium_expires_at = None, daily_ai_calls = 5,
          last_ai_calls_reset = Some 20\<rparr>" 500
        "\<lparr>FREE_DAILY_AI_CALLS = 5, PREMIUM_DAILY_AI_CALLS = 200,
          HUGGINGFACE_API_TOKEN = None\<rparr>" 20]
  by (simp add: ensure_daily_reset_def)

section \<open>The advice generator\<close>

lemma emotion_mapping_keys_are_lower_case:
  "(l, b) \<in> set emotion_mapping \<Longrightarrow> str_lower l = l"
  by (auto simp: emotion_mapping_def str_lower_def lower_char_def)

lemma emotion_mapping_buckets_have_templates:
  "(l, b) \<in> set emotion_mapping \<Longrightarrow> \<exists>tpl. map_of advice_templates b = Some tpl"
  by (auto simp: emotion_mapping_def advice_templates_def)

text \<open>
  C8, as amended. \<^verbatim>\<open>generate_advice\<close> lower-cases the label, takes as bucket the entry
  of the remap table for it, or the lower-cased label itself when the table has none,
  and returns the template of the bucket, or the generic "all emotions are valid"
  template when the bucket has none, followed by the disclaimer sentence of the code,
  " Remember, this is general wellness advice and not a substitute for professional
  mental health support."; so every result ends with that sentence, and for every label
  that is a key of the remap table the result is the template of the label's bucket
  followed by the sentence.
\<close>

theorem generate_advice_bucket_template_then_disclaimer:
  "(let bucket = (case map_of emotion_mapping (str_lower l) of
                    None \<Rightarrow> str_lower l | Some b \<Rightarrow> b);
        template = (case map_of advice_templates bucket of
                      None \<Rightarrow> ''Take a moment to acknowledge your feelings. Remember that all emotions are valid and temporary.''
                    | Some tpl \<Rightarrow> tpl)
    in generate_advice l = template @ '' Remember, this is general wellness advice and not a substitute for professional mental health support.'')
   \<and> suffix '' Remember, this is general wellness advice and not a substitute for professional mental health support.'' (generate_advice l)
   \<and> (\<forall>b. map_of emotion_mapping l = Some b \<longrightarrow>
         (\<exists>tpl. map_of advice_templates b = Some tpl \<and>
                generate_advice l = tpl @ '' Remember, this is general wellness advice and not a substitute for professional mental health support.''))"
proof -
  have shape: "generate_advice l =
      dict_get advice_templates (dict_get emotion_mapping (str_lower l) (str_lower l)) default_advice
        @ advice_disclaimer"
    by (simp add: generate_advice_def Let_def)
  have table: "\<exists>tpl. map_of advice_templates b = Some tpl \<and> generate_advice l = tpl @ advice_disclaimer"
    if "map_of emotion_mapping l = Some b" for b
  proof -
    from that have mem: "(l, b) \<in> set emotion_mapping" by (rule map_of_SomeD)
    then have low: "str_lower l = l" by (rule emotion_mapping_keys_are_lower_case)
    from mem obtain tpl where tpl: "map_of advice_templates b = Some tpl"
      using emotion_mapping_buckets_have_templates by blast
    have "generate_advice l = tpl @ advice_disclaimer"
      unfolding shape low by (simp add: dict_get_def that tpl)
    with tpl show ?thesis by blast
  qed
  show ?thesis
    using table unfolding shape
    by (simp add: dict_get_def advice_disclaimer_def default_advice_def Let_def suffix_def)
qed

text \<open>The label "gratitude" is remapped to the bucket "content".\<close>

theorem generate_advice_witness:
  "generate_advice ''gratitude'' =
     ''Contentment is a beautiful state. Take a moment to appreciate what's going well in your life right now. Remember, this is general wellness advice and not a substitute for professional mental health support.''"
  using generate_advice_bucket_template_then_disclaimer [of "''gratitude''"]
  by (simp add: emotion_mapping_def advice_templates_def)

text \<open>
  C8 as stated fails: the result for "joy" neither ends with nor contains the string
  "general wellness advice, not a substitute for professional mental health support";
  the sentence of the code reads "and not" where the claim has a comma, and ends with
  a full stop.
\<close>

theorem generate_advice_disclaimer_wording_counterexample:
  "generate_advice ''joy'' =
     ''You're feeling great! Consider sharing this positive energy with others or engaging in activities you love. Remember, this is general wellness advice and not a substitute for professional mental health support.''
   \<and> \<not> suffix ''general wellness advice, not a substitute for professional mental health support'' (generate_advice ''joy'')
   \<and> \<not> sublist ''general wellness advice, not a substitute for professional mental health support'' (generate_advice ''joy'')"
proof -
  have v: "generate_advice ''joy'' =
     ''You're feeling great! Consider sharing this positive energy with others or engaging in activities you love. Remember, this is general wellness advice and not a substitute for professional mental health support.''"
    by (simp add: generate_advice_def dict_get_def emotion_mapping_def advice_templates_def
          str_lower_def lower_char_def advice_disclaimer_def)
  have "\<not> sublist ''general wellness advice, not a substitute for professional mental health support''
     ''You're feeling great! Consider sharing this positive energy with others or engaging in activities you love. Remember, this is general wellness advice and not a substitute for professional mental health support.''"
    by code_simp
  moreover have "\<not> suffix ''general wellness advice, not a substitute for professional mental health support''
     ''You're feeling great! Consider sharing this positive energy with others or engaging in activities you love. Remember, this is general wellness advice and not a substitute for professional mental health support.''"
    by (simp add: suffix_def)
  ultimately show ?thesis unfolding v by simp
qed

section \<open>The playlist recommender\<close>

lemma mood_playlists_nonempty: "map_of mood_playlists k = Some ps \<Longrightarrow> ps \<noteq> []"
  by (auto simp: mood_playlists_def split: if_splits)

lemma calm_item:
  "dict_item mood_playlists ''calm'' =
     Inr [\<lparr>title = ''Peaceful Piano'', url = ''https://open.spotify.com/playlist/37i9dQZF1DX4sWSpwq3LiO''\<rparr>,
          \<lparr>title = ''Nature Sounds'', url = ''https://open.spotify.com/playlist/37i9dQZF1DWU0ScTcjJBdj''\<rparr>]"
  by (simp add: dict_item_def mood_playlists_def)

lemma dict_get_absent: "k \<notin> fst ` set d \<Longrightarrow> dict_get d k v = v"
  using map_of_eq_None_iff [of d k] by (simp add: dict_get_def)

text \<open>
  C9. For every input, \<^verbatim>\<open>get_recommendations\<close> returns a list (it does not raise)
  and the list is not empty; and when the input, lower-cased and remapped through
  \<^verbatim>\<open>emotion_to_mood\<close>, is not a key of \<^verbatim>\<open>mood_playlists\<close>, the list is the one of
  the bucket "calm", whatever the input was.
\<close>

theorem get_recommendations_nonempty_with_calm_default:
  "(\<exists>ps. get_recommendations m = Inr ps \<and> ps \<noteq> []) \<and>
   (dict_get emotion_to_mood (str_lower m) (str_lower m) \<notin> fst ` set mood_playlists \<longrightarrow>
      get_recommendations m =
        Inr [\<lparr>title = ''Peaceful Piano'', url = ''https://open.spotify.com/playlist/37i9dQZF1DX4sWSpwq3LiO''\<rparr>,
             \<lparr>title = ''Nature Sounds'', url = ''https://open.spotify.com/playlist/37i9dQZF1DWU0ScTcjJBdj''\<rparr>])"
proof -
  let ?k = "dict_get emotion_to_mood (str_lower m) (str_lower m)"
  let ?calm = "[\<lparr>title = ''Peaceful Piano'', url = ''https://open.spotify.com/playlist/37i9dQZF1DX4sWSpwq3LiO''\<rparr>,
             \<lparr>title = ''Nature Sounds'', url = ''https://open.spotify.com/playlist/37i9dQZF1DWU0ScTcjJBdj''\<rparr>]"
  have g: "get_recommendations m = Inr (dict_get mood_playlists ?k ?calm)"
    by (simp add: get_recommendations_def calm_item Let_def)
  have "dict_get mood_playlists ?k ?calm \<noteq> []"
    using mood_playlists_nonempty [of ?k] unfolding dict_get_def [of mood_playlists] by (simp split: option.splits)
  moreover have "?k \<notin> fst ` set mood_playlists \<Longrightarrow> dict_get mood_playlists ?k ?calm = ?calm"
    by (rule dict_get_absent)
  ultimately show ?thesis unfolding g by blast
qed

text \<open>An unknown mood gets the two playlists of "calm".\<close>

theorem get_recommendations_witness:
  "get_recommendations ''unknown_mood'' =
     Inr [\<lparr>title = ''Peaceful Piano'', url = ''https://open.spotify.com/playlist/37i9dQZF1DX4sWSpwq3LiO''\<rparr>,
          \<lparr>title = ''Nature Sounds'', url = ''https://open.spotify.com/playlist/37i9dQZF1DWU0ScTcjJBdj''\<rparr>]"
  using get_recommendations_nonempty_with_calm_default [of "''unknown_mood''"]
  by (simp add: dict_get_def emotion_to_mood_def mood_playlists_def str_lower_def
        lower_char_def)

section \<open>The classifier gateway\<close>

subsection \<open>The maximum of the scores, the first one on a tie\<close>

lemma score_key_entry: "score_key (entry e) = Inr (snd e)"
  by (simp add: score_key_def entry_def)

lemma label_lower_entry: "label_lower (entry e) = Inr (str_lower (fst e))"
  by (simp add: label_lower_def entry_def)

lemma py_max_entries:
  "\<exists>winner. py_max (Some (v, x)) (map entry es) = Inr winner \<and>
     ((winner = x \<and> (\<forall>e\<in>set es. snd e \<le> v)) \<or>
      (\<exists>pre e post. es = pre @ e # post \<and> winner = entry e \<and> v < snd e \<and>
          (\<forall>a\<in>set pre. snd a < snd e) \<and> (\<forall>a\<in>set post. snd a \<le> snd e)))"
proof (induction es arbitrary: v x)
  case Nil
  show ?case by simp
next
  case (Cons a es)
  show ?case
  proof (cases "v < snd a")
    case True
    from Cons.IH [of "snd a" "entry a"] obtain winner where
      t: "py_max (Some (snd a, entry a)) (map entry es) = Inr winner" and
      d: "(winner = entry a \<and> (\<forall>e\<in>set es. snd e \<le> snd a)) \<or>
          (\<exists>pre e post. es = pre @ e # post \<and> winner = entry e \<and> snd a < snd e \<and>
             (\<forall>b\<in>set pre. snd b < snd e) \<and> (\<forall>b\<in>set post. snd b \<le> snd e))"
      by blast
    have r: "py_max (Some (v, x)) (map entry (a # es)) = Inr winner"
      using True t by (simp add: score_key_entry)
    from d show ?thesis
    proof
      assume "winner = entry a \<and> (\<forall>e\<in>set es. snd e \<le> snd a)"
      then have "a # es = [] @ a # es \<and> winner = entry a \<and> v < snd a \<and>
          (\<forall>b\<in>set []. snd b < snd a) \<and> (\<forall>b\<in>set es. snd b \<le> snd a)"
        using True by simp
      then show ?thesis using r by blast
    next
      assume "\<exists>pre e post. es = pre @ e # post \<and> winner = entry e \<and> snd a < snd e \<and>
             (\<forall>b\<in>set pre. snd b < snd e) \<and> (\<forall>b\<in>set post. snd b \<le> snd e)"
      then obtain pre e post where
        "es = pre @ e # post" "winner = entry e" "snd a < snd e"
        "\<forall>b\<in>set pre. snd b < snd e" "\<forall>b\<in>set post. snd b \<le> snd e"
        by blast
      then have "a # es = (a # pre) @ e # post \<and> winner = entry e \<and> v < snd e \<and>
          (\<forall>b\<in>set (a # pre). snd b < snd e) \<and> (\<forall>b\<in>set post. snd b \<le> snd e)"
        using True by auto
      then show ?thesis using r by blast
    qed
  next
    case False
    from Cons.IH [of v x] obtain winner where
      t: "py_max (Some (v, x)) (map entry es) = Inr winner" and
      d: "(winner = x \<and> (\<forall>e\<in>set es. snd e \<le> v)) \<or>
          (\<exists>pre e post. es = pre @ e # post \<and> winner = entry e \<and> v < snd e \<and>
             (\<forall>b\<in>set pre. snd b < snd e) \<and> (\<forall>b\<in>set post. snd b \<le> snd e))"
      by blast
    have r: "py_max (Some (v, x)) (map entry (a # es)) = Inr winner"
      using False t by (simp add: score_key_entry)
    from d show ?thesis
    proof
      assume "winner = x \<and> (\<forall>e\<in>set es. snd e \<le> v)"
      then have "winner = x \<and> (\<forall>e\<in>set (a # es). snd e \<le> v)"
        using False by auto
      then show ?thesis using r by blast
    next
      assume "\<exists>pre e post. es = pre @ e # post \<and> winner = entry e \<and> v < snd e \<and>
             (\<forall>b\<in>set pre. snd b < snd e) \<and> (\<forall>b\<in>set post. snd b \<le> snd e)"
      then obtain pre e post where
        "es = pre @ e # post" "winner = entry e" "v < snd e"
        "\<forall>b\<in>set pre. snd b < snd e" "\<forall>b\<in>set post. snd b \<le> snd e"
        by blast
      then have "a # es = (a # pre) @ e # post \<and> winner = entry e \<and> v < snd e \<and>
          (\<forall>b\<in>set (a # pre). snd b < snd e) \<and> (\<forall>b\<in>set post. snd b \<le> snd e)"
        using False by auto
      then show ?thesis using r by blast
    qed
  qed
qed

lemma py_max_first_maximum:
  assumes "es \<noteq> []"
  shows "\<exists>pre e post. es = pre @ e # post \<and> py_max None (map entry es) = Inr (entry e) \<and>
          (\<forall>a\<in>set pre. snd a < snd e) \<and> (\<forall>a\<in>set post. snd a \<le> snd e)"
proof -
  from assms obtain a as where es: "es = a # as" by (cases es) auto
  have start: "py_max None (map entry es) = py_max (Some (snd a, entry a)) (map entry as)"
    by (simp add: es score_key_entry)
  from py_max_entries [of "snd a" "entry a" as] obtain winner where
    t: "py_max (Some (snd a, entry a)) (map entry as) = Inr winner" and
    d: "(winner = entry a \<and> (\<forall>e\<in>set as. snd e \<le> snd a)) \<or>
        (\<exists>pre e post. as = pre @ e # post \<and> winner = entry e \<and> snd a < snd e \<and>
           (\<forall>b\<in>set pre. snd b < snd e) \<and> (\<forall>b\<in>set post. snd b \<le> snd e))"
    by blast
  from d show ?thesis
  proof
    assume "winner = entry a \<and> (\<forall>e\<in>set as. snd e \<le> snd a)"
    then have "es = [] @ a # as \<and> py_max None (map entry es) = Inr (entry a) \<and>
        (\<forall>b\<in>set []. snd b < snd a) \<and> (\<forall>b\<in>set as. snd b \<le> snd a)"
      using start t es by simp
    then show ?thesis by blast
  next
    assume "\<exists>pre e post. as = pre @ e # post \<and> winner = entry e \<and> snd a < snd e \<and>
           (\<forall>b\<in>set pre. snd b < snd e) \<and> (\<forall>b\<in>set post. snd b \<le> snd e)"
    then obtain pre e post where
      "as = pre @ e # post" "winner = entry e" "snd a < snd e"
      "\<forall>b\<in>set pre. snd b < snd e" "\<forall>b\<in>set post. snd b \<le> snd e"
      by blast
    then have "es = (a # pre) @ e # post \<and> py_max None (map entry es) = Inr (entry e) \<and>
        (\<forall>b\<in>set (a # pre). snd b < snd e) \<and> (\<forall>b\<in>set post. snd b \<le> snd e)"
      using start t es by auto
    then show ?thesis by blast
  qed
qed

subsection \<open>Rounding, and the payloads that raise\<close>

lemma py_round_3_thousandths:
  "(\<exists>k::int. py_round x 3 = of_int k / 1000) \<and> \<bar>py_round x 3 - x\<bar> \<le> 1 / 2000"
proof -
  define y where "y = x * 1000"
  define f where "f = \<lfloor>y\<rfloor>"
  define d where "d = y - of_int f"
  define k where "k = (if d < 1 / 2 then f else if 1 / 2 < d then f + 1
                       else if even f then f else f + 1)"
  have r: "py_round x 3 = of_int k / 1000"
    by (simp add: py_round_def Let_def k_def d_def f_def y_def)
  have d0: "0 \<le> d" and d1: "d < 1"
    unfolding d_def f_def by linarith+
  have "\<bar>of_int k - y\<bar> \<le> 1 / 2"
    using d0 d1 unfolding k_def d_def by (auto split: if_splits)
  then have "\<bar>of_int k / 1000 - x\<bar> \<le> 1 / 2000"
    unfolding y_def by (simp add: field_simps abs_le_iff)
  then have "\<bar>py_round x 3 - x\<bar> \<le> 1 / 2000"
    unfolding r .
  with r show ?thesis by blast
qed

lemma py_max_bad_key:
  "\<exists>x\<in>set ys. \<exists>e. score_key x = Inl e \<Longrightarrow> \<exists>e. py_max best ys = Inl e"
proof (induction ys arbitrary: best)
  case Nil
  then show ?case by simp
next
  case (Cons y ys)
  show ?case
  proof (cases "score_key y")
    case (Inl e)
    then show ?thesis by simp
  next
    case (Inr w)
    with Cons.prems have "\<exists>x\<in>set ys. \<exists>e. score_key x = Inl e" by auto
    from Cons.IH [OF this] show ?thesis
      using Inr by (auto split: option.splits)
  qed
qed

lemma py_max_result_mem:
  "py_max best ys = Inr winner \<Longrightarrow> winner \<in> set ys \<or> (\<exists>v. best = Some (v, winner))"
proof (induction ys arbitrary: best)
  case Nil
  then show ?case by (cases best) auto
next
  case (Cons y ys)
  then show ?case
    by (fastforce split: sum.splits option.splits if_splits)
qed

lemma top_emotion_result_entries:
  assumes "es \<noteq> []"
  shows "\<exists>pre e post. es = pre @ e # post \<and>
          (\<forall>a\<in>set pre. snd a < snd e) \<and> (\<forall>a\<in>set post. snd a \<le> snd e) \<and>
          top_emotion_result (map entry es) =
            Inr \<lparr>label = str_lower (fst e), score = py_round (snd e) 3, ai_unavailable = None\<rparr>"
proof -
  from py_max_first_maximum [OF assms] obtain pre e post where
    "es = pre @ e # post" "py_max None (map entry es) = Inr (entry e)"
    "\<forall>a\<in>set pre. snd a < snd e" "\<forall>a\<in>set post. snd a \<le> snd e"
    by blast
  moreover from this have "top_emotion_result (map entry es) =
      Inr \<lparr>label = str_lower (fst e), score = py_round (snd e) 3, ai_unavailable = None\<rparr>"
    by (simp add: top_emotion_result_def score_key_entry label_lower_entry)
  ultimately show ?thesis by blast
qed

lemma top_emotion_result_bad_score:
  "\<exists>x\<in>set xs. \<exists>e. score_key x = Inl e \<Longrightarrow> \<exists>e. top_emotion_result xs = Inl e"
  using py_max_bad_key [of xs None] by (auto simp: top_emotion_result_def)

lemma top_emotion_result_no_label:
  assumes "\<forall>x\<in>set xs. \<exists>e. label_lower x = Inl e"
  shows "\<exists>e. top_emotion_result xs = Inl e"
proof (cases "py_max None xs")
  case (Inl e)
  then show ?thesis by (simp add: top_emotion_result_def)
next
  case (Inr winner)
  from py_max_result_mem [OF this] have "winner \<in> set xs" by simp
  with assms obtain e where "label_lower winner = Inl e" by blast
  with Inr show ?thesis by (simp add: top_emotion_result_def)
qed

lemma top_emotion_result_empty: "\<exists>e. top_emotion_result [] = Inl e"
  by (simp add: top_emotion_result_def)

lemma HFClient_analyze_emotion_configured:
  "api_token \<noteq> None \<Longrightarrow> api_token \<noteq> Some [] \<Longrightarrow>
   fst (HFClient_analyze_emotion api_token service txt posted) =
     (case try_request (service txt) of Inl e \<Rightarrow> neutral_fallback | Inr r \<Rightarrow> r)"
  by (auto simp: HFClient_analyze_emotion_def split: sum.splits exn.splits)

text \<open>
  C5. \<^verbatim>\<open>HFClient.analyze_emotion\<close> returns a value on every path: the exceptions of the
  \<^verbatim>\<open>try\<close> block end in its two handlers. Without a token (\<^verbatim>\<open>None\<close> or empty) it
  returns the neutral result \<^verbatim>\<open>{label: neutral, score: 0.5, ai_unavailable: True}\<close> and
  posts nothing; when the post raises (transport error, timeout), when
  \<^verbatim>\<open>raise_for_status\<close> raises (error status), when the body does not decode, and when
  anything raises while the decoded body is handled, it returns the same neutral result;
  and one call posts at most once.
\<close>

theorem HFClient_analyze_emotion_failures_give_neutral_fallback:
  "(api_token = None \<or> api_token = Some [] \<longrightarrow>
      HFClient_analyze_emotion api_token service txt posted =
        (\<lparr>label = ''neutral'', score = 1 / 2, ai_unavailable = Some True\<rparr>, posted))
   \<and> (service txt = PostRaises \<or> service txt = RaiseForStatusRaises \<or> service txt = JsonRaises
        \<or> (\<exists>e. try_request (service txt) = Inl e) \<longrightarrow>
      fst (HFClient_analyze_emotion api_token service txt posted) =
        \<lparr>label = ''neutral'', score = 1 / 2, ai_unavailable = Some True\<rparr>)
   \<and> (snd (HFClient_analyze_emotion api_token service txt posted) = posted \<or>
      snd (HFClient_analyze_emotion api_token service txt posted) = posted @ [txt])"
  by (auto simp: HFClient_analyze_emotion_def try_request_def neutral_fallback_def
           split: sum.splits exn.splits)

text \<open>
  No token: the neutral result and no post. A token and an error status: the neutral
  result. A token and a payload whose only entry has no label (\<^verbatim>\<open>KeyError\<close> while the
  response is handled): the neutral result.
\<close>

theorem HFClient_analyze_emotion_failures_witness:
  "HFClient_analyze_emotion None (\<lambda>t. PostRaises) ''Test text'' [] =
     (\<lparr>label = ''neutral'', score = 1 / 2, ai_unavailable = Some True\<rparr>, [])
   \<and> fst (HFClient_analyze_emotion (Some ''hf_token'') (\<lambda>t. RaiseForStatusRaises) ''Test text'' []) =
     \<lparr>label = ''neutral'', score = 1 / 2, ai_unavailable = Some True\<rparr>
   \<and> fst (HFClient_analyze_emotion (Some ''hf_token'')
            (\<lambda>t. Json (JList [JList [JDict [(''score'', JNum (95 / 100))]]])) ''Test text'' []) =
     \<lparr>label = ''neutral'', score = 1 / 2, ai_unavailable = Some True\<rparr>"
proof -
  have "try_request (Json (JList [JList [JDict [(''score'', JNum (95 / 100))]]])) = Inl Exception"
    by (simp add: try_request_def top_emotion_result_def score_key_def label_lower_def)
  then show ?thesis
    using HFClient_analyze_emotion_failures_give_neutral_fallback
            [of None "\<lambda>t. PostRaises" "''Test text''" "[]"]
          HFClient_analyze_emotion_failures_give_neutral_fallback
            [of "Some ''hf_token''" "\<lambda>t. RaiseForStatusRaises" "''Test text''" "[]"]
          HFClient_analyze_emotion_failures_give_neutral_fallback
            [of "Some ''hf_token''"
                "\<lambda>t. Json (JList [JList [JDict [(''score'', JNum (95 / 100))]]])"
                "''Test text''" "[]"]
    by simp
qed

text \<open>
  C6. With a token configured and a decoded payload: for a non-empty list \<open>es\<close> of
  \<^verbatim>\<open>{label, score}\<close> entries, given flat or as the first element of an outer list, the
  result carries the lower-cased label and the score, rounded to a multiple of one
  thousandth at most half a thousandth away, of an entry \<open>e\<close> such that every entry before
  it has a strictly smaller score and every entry after it has a score at most as large
  (the maximum, the first one on a tie), and no \<^verbatim>\<open>ai_unavailable\<close> key. The neutral
  result is returned when the payload is not a list, is the empty list or has an empty
  inner list, and when the list taken (the payload itself, or its first element when that
  is a list) has an entry that is not a dictionary with a numeric score, or has no entry
  with a string label.
\<close>

theorem HFClient_analyze_emotion_on_a_decoded_payload:
  assumes "api_token \<noteq> None" and "api_token \<noteq> Some []" and "service txt = Json payload"
  shows
  "(es \<noteq> [] \<and> (payload = JList (map entry es) \<or> (\<exists>rest. payload = JList (JList (map entry es) # rest)))
      \<longrightarrow> (\<exists>pre e post. es = pre @ e # post \<and>
             (\<forall>a\<in>set pre. snd a < snd e) \<and> (\<forall>a\<in>set post. snd a \<le> snd e) \<and>
             fst (HFClient_analyze_emotion api_token service txt posted) =
               \<lparr>label = str_lower (fst e), score = py_round (snd e) 3, ai_unavailable = None\<rparr> \<and>
             (\<exists>k::int. py_round (snd e) 3 = of_int k / 1000) \<and>
             \<bar>py_round (snd e) 3 - snd e\<bar> \<le> 1 / 2000))
   \<and> ((\<forall>xs. payload \<noteq> JList xs) \<or> payload = JList [] \<or> (\<exists>rest. payload = JList (JList [] # rest))
      \<longrightarrow> fst (HFClient_analyze_emotion api_token service txt posted) =
            \<lparr>label = ''neutral'', score = 1 / 2, ai_unavailable = Some True\<rparr>)
   \<and> (\<forall>xs. ((payload = JList xs \<and> (\<forall>ys. hd xs \<noteq> JList ys)) \<or> (\<exists>rest. payload = JList (JList xs # rest))) \<and>
            ((\<exists>x\<in>set xs. \<exists>ex. score_key x = Inl ex) \<or> (\<forall>x\<in>set xs. \<exists>ex. label_lower x = Inl ex))
      \<longrightarrow> fst (HFClient_analyze_emotion api_token service txt posted) =
            \<lparr>label = ''neutral'', score = 1 / 2, ai_unavailable = Some True\<rparr>)"
proof -
  let ?r = "fst (HFClient_analyze_emotion api_token service txt posted)"
  have r: "?r = (case try_request (Json payload) of Inl e \<Rightarrow> neutral_fallback | Inr r \<Rightarrow> r)"
    using HFClient_analyze_emotion_configured [OF assms(1,2)] assms(3) by simp
  have flat: "try_request (Json (JList (map entry es))) = top_emotion_result (map entry es)"
    if "es \<noteq> []" for es
    using that by (cases es) (simp_all add: try_request_def entry_def)
  have nested: "try_request (Json (JList (JList xs # rest))) = top_emotion_result xs" for xs rest
    by (simp add: try_request_def)
  have flat_any: "try_request (Json (JList xs)) = top_emotion_result xs"
    if "xs \<noteq> []" "\<forall>ys. hd xs \<noteq> JList ys" for xs
    using that by (cases xs; cases "hd xs") (auto simp: try_request_def)
  have A: "\<exists>pre e post. es = pre @ e # post \<and>
             (\<forall>a\<in>set pre. snd a < snd e) \<and> (\<forall>a\<in>set post. snd a \<le> snd e) \<and>
             ?r = \<lparr>label = str_lower (fst e), score = py_round (snd e) 3, ai_unavailable = None\<rparr> \<and>
             (\<exists>k::int. py_round (snd e) 3 = of_int k / 1000) \<and>
             \<bar>py_round (snd e) 3 - snd e\<bar> \<le> 1 / 2000"
    if ne: "es \<noteq> []"
       and shape: "payload = JList (map entry es) \<or> (\<exists>rest. payload = JList (JList (map entry es) # rest))"
  proof -
    from shape have tr: "try_request (Json payload) = top_emotion_result (map entry es)"
      using flat [OF ne] nested by auto
    from top_emotion_result_entries [OF ne] obtain pre e post where
      p: "es = pre @ e # post" "\<forall>a\<in>set pre. snd a < snd e" "\<forall>a\<in>set post. snd a \<le> snd e" and
      t: "top_emotion_result (map entry es) =
         Inr \<lparr>label = str_lower (fst e), score = py_round (snd e) 3, ai_unavailable = None\<rparr>"
      by blast
    have res: "?r = \<lparr>label = str_lower (fst e), score = py_round (snd e) 3, ai_unavailable = None\<rparr>"
      unfolding r tr t by simp
    from py_round_3_thousandths [of "snd e"]
    have k: "\<exists>k::int. py_round (snd e) 3 = of_int k / 1000"
      and b: "\<bar>py_round (snd e) 3 - snd e\<bar> \<le> 1 / 2000"
      by blast+
    from p res k b show ?thesis by blast
  qed
  have B: "?r = \<lparr>label = ''neutral'', score = 1 / 2, ai_unavailable = Some True\<rparr>"
    if "(\<forall>xs. payload \<noteq> JList xs) \<or> payload = JList [] \<or> (\<exists>rest. payload = JList (JList [] # rest))"
  proof -
    from that consider "\<forall>xs. payload \<noteq> JList xs" | "payload = JList []"
      | rest where "payload = JList (JList [] # rest)" by blast
    then show ?thesis
    proof cases
      case 1
      then show ?thesis unfolding r
        by (cases payload) (simp_all add: try_request_def neutral_fallback_def)
    next
      case 2
      then show ?thesis unfolding r by (simp add: try_request_def neutral_fallback_def)
    next
      case 3
      then show ?thesis unfolding r
        using top_emotion_result_empty by (auto simp: nested neutral_fallback_def)
    qed
  qed
  have C: "?r = \<lparr>label = ''neutral'', score = 1 / 2, ai_unavailable = Some True\<rparr>"
    if shape: "(payload = JList xs \<and> (\<forall>ys. hd xs \<noteq> JList ys)) \<or> (\<exists>rest. payload = JList (JList xs # rest))"
       and bad: "(\<exists>x\<in>set xs. \<exists>ex. score_key x = Inl ex) \<or> (\<forall>x\<in>set xs. \<exists>ex. label_lower x = Inl ex)"
    for xs
  proof (cases "payload = JList []")
    case True
    then show ?thesis using B by blast
  next
    case False
    with shape have "try_request (Json payload) = top_emotion_result xs"
      using flat_any [of xs] nested by auto
    moreover from bad have "\<exists>ex. top_emotion_result xs = Inl ex"
      using top_emotion_result_bad_score [of xs] top_emotion_result_no_label [of xs] by blast
    ultimately show ?thesis unfolding r by (auto simp: neutral_fallback_def)
  qed
  from A B C show ?thesis by blast
qed

text \<open>
  A flat payload of three entries, the second and the third tied at 0.91234: the second
  one wins, its label lower-cased and its score rounded to 0.912. The nested payload of
  the repository's test. A nested payload whose inner list is empty.
\<close>

theorem HFClient_analyze_emotion_on_a_decoded_payload_witness:
  "(\<exists>pre e post.
      [(''sadness'', 4 / 10), (''JOY'', 91234 / 100000), (''fear'', 91234 / 100000)] = pre @ e # post \<and>
      (\<forall>a\<in>set pre. snd a < snd e) \<and> (\<forall>a\<in>set post. snd a \<le> snd e) \<and>
      fst (HFClient_analyze_emotion (Some ''hf_token'')
             (\<lambda>t. Json (JList [entry (''sadness'', 4 / 10), entry (''JOY'', 91234 / 100000),
                               entry (''fear'', 91234 / 100000)])) ''What a day'' [])
        = \<lparr>label = str_lower (fst e), score = py_round (snd e) 3, ai_unavailable = None\<rparr>)
   \<and> fst (HFClient_analyze_emotion (Some ''hf_token'')
          (\<lambda>t. Json (JList [entry (''sadness'', 4 / 10), entry (''JOY'', 91234 / 100000),
                            entry (''fear'', 91234 / 100000)])) ''What a day'' [])
     = \<lparr>label = ''joy'', score = 912 / 1000, ai_unavailable = None\<rparr>
   \<and> fst (HFClient_analyze_emotion (Some ''hf_token'')
          (\<lambda>t. Json (JList [JList [entry (''joy'', 95 / 100)]])) ''I'm feeling amazing today!'' [])
     = \<lparr>label = ''joy'', score = 95 / 100, ai_unavailable = None\<rparr>
   \<and> fst (HFClient_analyze_emotion (Some ''hf_token'')
          (\<lambda>t. Json (JList [JList []])) ''What a day'' [])
     = \<lparr>label = ''neutral'', score = 1 / 2, ai_unavailable = Some True\<rparr>"
proof -
  let ?es = "[(''sadness'', 4 / 10), (''JOY'', 91234 / 100000), (''fear'', 91234 / 100000 :: rat)]"
  let ?flat = "JList (map entry ?es)"
  have inst: "\<exists>pre e post. ?es = pre @ e # post \<and>
      (\<forall>a\<in>set pre. snd a < snd e) \<and> (\<forall>a\<in>set post. snd a \<le> snd e) \<and>
      fst (HFClient_analyze_emotion (Some ''hf_token'') (\<lambda>t. Json ?flat) ''What a day'' [])
        = \<lparr>label = str_lower (fst e), score = py_round (snd e) 3, ai_unavailable = None\<rparr>"
    using HFClient_analyze_emotion_on_a_decoded_payload
      [of "Some ''hf_token''" "\<lambda>t. Json ?flat" "''What a day''" ?flat ?es "[]"]
    by fastforce
  have flat: "fst (HFClient_analyze_emotion (Some ''hf_token'')
          (\<lambda>t. Json (JList [entry (''sadness'', 4 / 10), entry (''JOY'', 91234 / 100000),
                            entry (''fear'', 91234 / 100000)])) ''What a day'' [])
     = \<lparr>label = ''joy'', score = 912 / 1000, ai_unavailable = None\<rparr>"
    by code_simp
  have nested: "fst (HFClient_analyze_emotion (Some ''hf_token'')
          (\<lambda>t. Json (JList [JList [entry (''joy'', 95 / 100)]])) ''I'm feeling amazing today!'' [])
     = \<lparr>label = ''joy'', score = 95 / 100, ai_unavailable = None\<rparr>"
    by code_simp
  have empty: "fst (HFClient_analyze_emotion (Some ''hf_token'')
          (\<lambda>t. Json (JList [JList []])) ''What a day'' [])
     = \<lparr>label = ''neutral'', score = 1 / 2, ai_unavailable = Some True\<rparr>"
    using HFClient_analyze_emotion_on_a_decoded_payload
      [of "Some ''hf_token''" "\<lambda>t. Json (JList [JList []])" "''What a day''" "JList [JList []]"
          "[]" "[]"]
    by simp
  from inst flat nested empty show ?thesis by simp
qed


section \<open>The analysis orchestrator\<close>

text \<open>The three ways out of the view, each under the result of the quota check.\<close>

lemma analyze_emotion_refused:
  "check_ai_quota (django_settings e) (date_today e) (timezone_now e) (profile s) = (Some q, p) \<Longrightarrow>
   analyze_emotion e request s = (HTTP_402_PAYMENT_REQUIRED q, s\<lparr>profile := p\<rparr>)"
  by (simp add: analyze_emotion_def)

lemma analyze_emotion_invalid_text:
  "check_ai_quota (django_settings e) (date_today e) (timezone_now e) (profile s) = (None, p) \<Longrightarrow>
   txt = str_strip (case data_text request of None \<Rightarrow> [] | Some t \<Rightarrow> t) \<Longrightarrow>
   txt = [] \<or> 1000 < length txt \<Longrightarrow>
   analyze_emotion e request s =
     (HTTP_400_BAD_REQUEST (if txt = [] then ''Text is required for analysis''
                            else ''Text cannot exceed 1000 characters''),
      s\<lparr>profile := p\<rparr>)"
  by (auto simp: analyze_emotion_def Let_def)

lemma get_recommendations_returns: "\<exists>ps. get_recommendations m = Inr ps"
  by (simp add: get_recommendations_def dict_item_def mood_playlists_def Let_def)

lemma analyze_emotion_accepted:
  assumes "check_ai_quota (django_settings e) (date_today e) (timezone_now e) (profile s) = (None, p)"
    and "txt = str_strip (case data_text request of None \<Rightarrow> [] | Some t \<Rightarrow> t)"
    and "txt \<noteq> []" and "length txt \<le> 1000"
    and "HFClient_analyze_emotion (HUGGINGFACE_API_TOKEN (django_settings e)) (hf_service e) txt
           (hf_requests s) = (er, posted)"
  shows "\<exists>resp. analyze_emotion e request s =
     (HTTP_200_OK resp,
      \<lparr>profile = increment_ai_calls p,
       mood_logs = (if data_persist request
                    then mood_logs s @
                      [\<lparr>mood = (case data_mood request of None \<Rightarrow> label er
                                | Some m \<Rightarrow> if m = [] then label er else m),
                        intensity = min 10 (max 1 (py_int (score er * 10))),
                        mood_note = take 1000 txt,
                        detected_emotion = label er,
                        detected_confidence = score er,
                        advice = generate_advice (label er)\<rparr>]
                    else mood_logs s),
       hf_requests = posted\<rparr>) \<and>
     emotion_label resp = label er \<and> emotion_score resp = score er \<and>
     response_advice resp = generate_advice (label er) \<and>
     get_recommendations (label er) = Inr (music_recommendations resp) \<and>
     response_ai_unavailable resp = (ai_unavailable er = Some True) \<and>
     mood_log_id resp = (if data_persist request then Some (length (mood_logs s)) else None)"
proof -
  obtain ps where ps: "get_recommendations (label er) = Inr ps"
    using get_recommendations_returns by blast
  show ?thesis
    using assms ps by (auto simp: analyze_emotion_def Let_def split: option.splits)
qed

text \<open>
  C1, as amended. Let \<open>p\<close> be the profile after the daily reset and \<open>mx\<close> the ceiling
  of its plan. When the quota is exhausted (\<open>mx \<le> daily_ai_calls p\<close>) the view returns
  the 402 response carrying the counter, the ceiling and the plan, and the state after
  the request is the state before it with the profile \<open>p\<close>: nothing was posted to the
  classifier and the counter was not incremented. When the quota check passes and the
  text is, after trimming, empty or longer than 1000 characters, the view returns a 400
  response and again leaves the state with the profile \<open>p\<close>: the counter keeps the value
  the daily reset left.
\<close>

theorem analyze_emotion_refusals_consume_no_quota:
  assumes "p = ensure_daily_reset (date_today e) (profile s)"
    and "mx = (if is_premium_active (timezone_now e) p
               then PREMIUM_DAILY_AI_CALLS (django_settings e)
               else FREE_DAILY_AI_CALLS (django_settings e))"
    and "txt = str_strip (case data_text request of None \<Rightarrow> [] | Some t \<Rightarrow> t)"
  shows
  "(mx \<le> daily_ai_calls p \<longrightarrow>
      analyze_emotion e request s =
        (HTTP_402_PAYMENT_REQUIRED
           \<lparr>current_calls = daily_ai_calls p, max_calls = mx, qe_plan = plan p\<rparr>,
         s\<lparr>profile := p\<rparr>))
   \<and> (daily_ai_calls p < mx \<and> (txt = [] \<or> 1000 < length txt) \<longrightarrow>
      (\<exists>detail. analyze_emotion e request s = (HTTP_400_BAD_REQUEST detail, s\<lparr>profile := p\<rparr>)))"
proof (intro conjI impI)
  assume "mx \<le> daily_ai_calls p"
  then have "check_ai_quota (django_settings e) (date_today e) (timezone_now e) (profile s) =
      (Some \<lparr>current_calls = daily_ai_calls p, max_calls = mx, qe_plan = plan p\<rparr>, p)"
    using assms(1,2) by (simp add: check_ai_quota_def Let_def)
  then show "analyze_emotion e request s =
        (HTTP_402_PAYMENT_REQUIRED
           \<lparr>current_calls = daily_ai_calls p, max_calls = mx, qe_plan = plan p\<rparr>,
         s\<lparr>profile := p\<rparr>)"
    by (rule analyze_emotion_refused)
next
  assume a: "daily_ai_calls p < mx \<and> (txt = [] \<or> 1000 < length txt)"
  then have "check_ai_quota (django_settings e) (date_today e) (timezone_now e) (profile s) = (None, p)"
    using assms(1,2) by (simp add: check_ai_quota_def Let_def)
  from analyze_emotion_invalid_text [OF this assms(3)] a
  show "\<exists>detail. analyze_emotion e request s = (HTTP_400_BAD_REQUEST detail, s\<lparr>profile := p\<rparr>)"
    by blast
qed

text \<open>
  A free user at 5 of 5 calls is refused with (5, 5, FREE) and the state is unchanged; a
  free user at 2 of 5 calls who sends only blanks gets a 400 response and stays at 2.
\<close>

theorem analyze_emotion_refusals_witness:
  "analyze_emotion
     \<lparr>django_settings = \<lparr>FREE_DAILY_AI_CALLS = 5, PREMIUM_DAILY_AI_CALLS = 200,
                          HUGGINGFACE_API_TOKEN = Some ''hf_token''\<rparr>,
      date_today = 20, timezone_now = 500, hf_service = (\<lambda>t. PostRaises)\<rparr>
     \<lparr>data_text = Some ''Test text'', data_mood = None, data_persist = False\<rparr>
     \<lparr>profile = \<lparr>plan = ''FREE'', premium_expires_at = None, daily_ai_calls = 5,
                  last_ai_calls_reset = Some 20\<rparr>,
      mood_logs = [], hf_requests = []\<rparr>
   = (HTTP_402_PAYMENT_REQUIRED \<lparr>current_calls = 5, max_calls = 5, qe_plan = ''FREE''\<rparr>,
      \<lparr>profile = \<lparr>plan = ''FREE'', premium_expires_at = None, daily_ai_calls = 5,
                   last_ai_calls_reset = Some 20\<rparr>,
       mood_logs = [], hf_requests = []\<rparr>)
   \<and> (\<exists>detail. analyze_emotion
     \<lparr>django_settings = \<lparr>FREE_DAILY_AI_CALLS = 5, PREMIUM_DAILY_AI_CALLS = 200,
                          HUGGINGFACE_API_TOKEN = Some ''hf_token''\<rparr>,
      date_today = 20, timezone_now = 500, hf_service = (\<lambda>t. PostRaises)\<rparr>
     \<lparr>data_text = Some ''   '', data_mood = None, data_persist = True\<rparr>
     \<lparr>profile = \<lparr>plan = ''FREE'', premium_expires_at = None, daily_ai_calls = 2,
                  last_ai_calls_reset = Some 20\<rparr>,
      mood_logs = [], hf_requests = []\<rparr>
   = (HTTP_400_BAD_REQUEST detail,
      \<lparr>profile = \<lparr>plan = ''FREE'', premium_expires_at = None, daily_ai_calls = 2,
                   last_ai_calls_reset = Some 20\<rparr>,
       mood_logs = [], hf_requests = []\<rparr>))"
proof -
  let ?e = "\<lparr>django_settings = \<lparr>FREE_DAILY_AI_CALLS = 5, PREMIUM_DAILY_AI_CALLS = 200,
                          HUGGINGFACE_API_TOKEN = Some ''hf_token''\<rparr>,
      date_today = 20, timezone_now = 500, hf_service = (\<lambda>t. PostRaises)\<rparr>"
  have a: "analyze_emotion ?e
     \<lparr>data_text = Some ''Test text'', data_mood = None, data_persist = False\<rparr>
     \<lparr>profile = \<lparr>plan = ''FREE'', premium_expires_at = None, daily_ai_calls = 5,
                  last_ai_calls_reset = Some 20\<rparr>,
      mood_logs = [], hf_requests = []\<rparr>
   = (HTTP_402_PAYMENT_REQUIRED \<lparr>current_calls = 5, max_calls = 5, qe_plan = ''FREE''\<rparr>,
      \<lparr>profile = \<lparr>plan = ''FREE'', premium_expires_at = None, daily_ai_calls = 5,
                   last_ai_calls_reset = Some 20\<rparr>,
       mood_logs = [], hf_requests = []\<rparr>)"
    using analyze_emotion_refusals_consume_no_quota [OF refl refl refl, of ?e
      "\<lparr>profile = \<lparr>plan = ''FREE'', premium_expires_at = None, daily_ai_calls = 5,
                  last_ai_calls_reset = Some 20\<rparr>,
      mood_logs = [], hf_requests = []\<rparr>"
      "\<lparr>data_text = Some ''Test text'', data_mood = None, data_persist = False\<rparr>"]
    by (simp add: ensure_daily_reset_def is_premium_active_def)
  have b: "\<exists>detail. analyze_emotion ?e
     \<lparr>data_text = Some ''   '', data_mood = None, data_persist = True\<rparr>
     \<lparr>profile = \<lparr>plan = ''FREE'', premium_expires_at = None, daily_ai_calls = 2,
                  last_ai_calls_reset = Some 20\<rparr>,
      mood_logs = [], hf_requests = []\<rparr>
   = (HTTP_400_BAD_REQUEST detail,
      \<lparr>profile = \<lparr>plan = ''FREE'', premium_expires_at = None, daily_ai_calls = 2,
                   last_ai_calls_reset = Some 20\<rparr>,
       mood_logs = [], hf_requests = []\<rparr>)"
    using analyze_emotion_refusals_consume_no_quota [OF refl refl refl, of ?e
      "\<lparr>profile = \<lparr>plan = ''FREE'', premium_expires_at = None, daily_ai_calls = 2,
                  last_ai_calls_reset = Some 20\<rparr>,
      mood_logs = [], hf_requests = []\<rparr>"
      "\<lparr>data_text = Some ''   '', data_mood = None, data_persist = True\<rparr>"]
    by (simp add: ensure_daily_reset_def is_premium_active_def str_strip_def isspace_def)
  from a b show ?thesis by blast
qed

text \<open>
  C1 as stated fails for a request whose text is empty and whose user has exhausted the
  quota: the quota check comes first, so the view returns the 402 response and not a
  validation error.
\<close>

theorem analyze_emotion_quota_check_precedes_validation_counterexample:
  "str_strip '''' = [] \<and>
   analyze_emotion
     \<lparr>django_settings = \<lparr>FREE_DAILY_AI_CALLS = 5, PREMIUM_DAILY_AI_CALLS = 200,
                          HUGGINGFACE_API_TOKEN = Some ''hf_token''\<rparr>,
      date_today = 20, timezone_now = 500, hf_service = (\<lambda>t. PostRaises)\<rparr>
     \<lparr>data_text = Some '''', data_mood = None, data_persist = False\<rparr>
     \<lparr>profile = \<lparr>plan = ''FREE'', premium_expires_at = None, daily_ai_calls = 5,
                  last_ai_calls_reset = Some 20\<rparr>,
      mood_logs = [], hf_requests = []\<rparr>
   = (HTTP_402_PAYMENT_REQUIRED \<lparr>current_calls = 5, max_calls = 5, qe_plan = ''FREE''\<rparr>,
      \<lparr>profile = \<lparr>plan = ''FREE'', premium_expires_at = None, daily_ai_calls = 5,
                   last_ai_calls_reset = Some 20\<rparr>,
       mood_logs = [], hf_requests = []\<rparr>)"
  by (simp add: str_strip_def analyze_emotion_def check_ai_quota_def ensure_daily_reset_def
        is_premium_active_def)

text \<open>
  C2. An analysis that passes the quota check and the validation of the text returns the
  200 response, also when the classifier result is the neutral fallback (no token, or an
  exception in the request), and leaves the profile that the daily reset returned with
  its counter incremented by exactly 1; the incremented counter does not exceed the
  ceiling of the plan.
\<close>

theorem accepted_analysis_increments_counter_once_within_ceiling:
  assumes "p = ensure_daily_reset (date_today e) (profile s)"
    and "mx = (if is_premium_active (timezone_now e) p
               then PREMIUM_DAILY_AI_CALLS (django_settings e)
               else FREE_DAILY_AI_CALLS (django_settings e))"
    and "txt = str_strip (case data_text request of None \<Rightarrow> [] | Some t \<Rightarrow> t)"
    and "daily_ai_calls p < mx" and "txt \<noteq> []" and "length txt \<le> 1000"
  shows
  "(\<exists>resp. fst (analyze_emotion e request s) = HTTP_200_OK resp \<and>
      (HUGGINGFACE_API_TOKEN (django_settings e) = None \<or>
       HUGGINGFACE_API_TOKEN (django_settings e) = Some [] \<or>
       (\<exists>ex. try_request (hf_service e txt) = Inl ex)
         \<longrightarrow> response_ai_unavailable resp \<and> emotion_label resp = ''neutral''))
   \<and> profile (snd (analyze_emotion e request s)) = p\<lparr>daily_ai_calls := daily_ai_calls p + 1\<rparr>
   \<and> daily_ai_calls (profile (snd (analyze_emotion e request s))) \<le> mx"
proof -
  have q: "check_ai_quota (django_settings e) (date_today e) (timezone_now e) (profile s) = (None, p)"
    using assms(1,2,4) by (simp add: check_ai_quota_def Let_def)
  obtain er posted where
    h: "HFClient_analyze_emotion (HUGGINGFACE_API_TOKEN (django_settings e)) (hf_service e) txt
           (hf_requests s) = (er, posted)"
    by (cases "HFClient_analyze_emotion (HUGGINGFACE_API_TOKEN (django_settings e)) (hf_service e)
                 txt (hf_requests s)")
  from analyze_emotion_accepted [OF q assms(3) assms(5) assms(6) h]
  obtain resp st where
    r: "analyze_emotion e request s = (HTTP_200_OK resp, st)" and
    st: "profile st = increment_ai_calls p" and
    l: "emotion_label resp = label er" and
    u: "response_ai_unavailable resp = (ai_unavailable er = Some True)"
    by fastforce
  have deg: "er = neutral_fallback"
    if "HUGGINGFACE_API_TOKEN (django_settings e) = None \<or>
        HUGGINGFACE_API_TOKEN (django_settings e) = Some [] \<or>
        (\<exists>ex. try_request (hf_service e txt) = Inl ex)"
    using that h
    by (auto simp: HFClient_analyze_emotion_def split: sum.splits exn.splits if_splits)
  have "HUGGINGFACE_API_TOKEN (django_settings e) = None \<or>
       HUGGINGFACE_API_TOKEN (django_settings e) = Some [] \<or>
       (\<exists>ex. try_request (hf_service e txt) = Inl ex)
         \<longrightarrow> response_ai_unavailable resp \<and> emotion_label resp = ''neutral''"
    using deg l u by (auto simp: neutral_fallback_def)
  moreover have "profile st = p\<lparr>daily_ai_calls := daily_ai_calls p + 1\<rparr>"
    using st by (simp add: increment_ai_calls_def)
  moreover have "daily_ai_calls (profile st) \<le> mx"
    using st assms(4) by (simp add: increment_ai_calls_def)
  ultimately show ?thesis using r by simp
qed

text \<open>
  Without a token the result is the neutral fallback, and the counter of a free user goes
  from 4 to 5, the free ceiling.
\<close>

theorem accepted_analysis_witness:
  "profile (snd (analyze_emotion
     \<lparr>django_settings = \<lparr>FREE_DAILY_AI_CALLS = 5, PREMIUM_DAILY_AI_CALLS = 200,
                          HUGGINGFACE_API_TOKEN = None\<rparr>,
      date_today = 20, timezone_now = 500, hf_service = (\<lambda>t. PostRaises)\<rparr>
     \<lparr>data_text = Some ''Test text'', data_mood = None, data_persist = False\<rparr>
     \<lparr>profile = \<lparr>plan = ''FREE'', premium_expires_at = None, daily_ai_calls = 4,
                  last_ai_calls_reset = Some 20\<rparr>,
      mood_logs = [], hf_requests = []\<rparr>))
   = \<lparr>plan = ''FREE'', premium_expires_at = None, daily_ai_calls = 5,
      last_ai_calls_reset = Some 20\<rparr>
   \<and> (\<exists>resp. fst (analyze_emotion
     \<lparr>django_settings = \<lparr>FREE_DAILY_AI_CALLS = 5, PREMIUM_DAILY_AI_CALLS = 200,
                          HUGGINGFACE_API_TOKEN = None\<rparr>,
      date_today = 20, timezone_now = 500, hf_service = (\<lambda>t. PostRaises)\<rparr>
     \<lparr>data_text = Some ''Test text'', data_mood = None, data_persist = False\<rparr>
     \<lparr>profile = \<lparr>plan = ''FREE'', premium_expires_at = None, daily_ai_calls = 4,
                  last_ai_calls_reset = Some 20\<rparr>,
      mood_logs = [], hf_requests = []\<rparr>) = HTTP_200_OK resp
      \<and> response_ai_unavailable resp \<and> emotion_label resp = ''neutral'')"
  using accepted_analysis_increments_counter_once_within_ceiling [OF refl refl refl, of
     "\<lparr>django_settings = \<lparr>FREE_DAILY_AI_CALLS = 5, PREMIUM_DAILY_AI_CALLS = 200,
                          HUGGINGFACE_API_TOKEN = None\<rparr>,
      date_today = 20, timezone_now = 500, hf_service = (\<lambda>t. PostRaises)\<rparr>"
     "\<lparr>profile = \<lparr>plan = ''FREE'', premium_expires_at = None, daily_ai_calls = 4,
                  last_ai_calls_reset = Some 20\<rparr>,
      mood_logs = [], hf_requests = []\<rparr>"
     "\<lparr>data_text = Some ''Test text'', data_mood = None, data_persist = False\<rparr>"]
  by (simp add: ensure_daily_reset_def is_premium_active_def str_strip_def isspace_def)

text \<open>
  C7, as amended. An accepted analysis with \<^verbatim>\<open>persist\<close> set appends one entry to the
  mood logs: its mood is the mood of the request when that is given and not empty, and
  the label of the classifier result otherwise; its intensity is the score times 10,
  truncated towards zero (\<^verbatim>\<open>int\<close>, not \<^verbatim>\<open>round\<close>) and clamped to 1..10; its note is
  the trimmed text, which the cut at 1000 characters leaves as it is; detected emotion,
  confidence and advice are the label, the score and the advice of the response, which
  also carries the key of the new entry.
\<close>

theorem persisted_mood_log_entry_truncates_the_score:
  assumes "p = ensure_daily_reset (date_today e) (profile s)"
    and "mx = (if is_premium_active (timezone_now e) p
               then PREMIUM_DAILY_AI_CALLS (django_settings e)
               else FREE_DAILY_AI_CALLS (django_settings e))"
    and "txt = str_strip (case data_text request of None \<Rightarrow> [] | Some t \<Rightarrow> t)"
    and "er = fst (HFClient_analyze_emotion (HUGGINGFACE_API_TOKEN (django_settings e))
                     (hf_service e) txt (hf_requests s))"
    and "daily_ai_calls p < mx" and "txt \<noteq> []" and "length txt \<le> 1000"
    and "data_persist request"
  shows
  "mood_logs (snd (analyze_emotion e request s)) =
     mood_logs s @
       [\<lparr>mood = (case data_mood request of
                   None \<Rightarrow> label er
                 | Some m \<Rightarrow> if m = [] then label er else m),
         intensity = min 10 (max 1 (if 0 \<le> score er then \<lfloor>score er * 10\<rfloor>
                                    else \<lceil>score er * 10\<rceil>)),
         mood_note = txt,
         detected_emotion = label er,
         detected_confidence = score er,
         advice = generate_advice (label er)\<rparr>]
   \<and> take 1000 txt = txt
   \<and> (\<exists>resp. fst (analyze_emotion e request s) = HTTP_200_OK resp \<and>
         mood_log_id resp = Some (length (mood_logs s)) \<and>
         emotion_label resp = label er \<and> emotion_score resp = score er \<and>
         response_advice resp = generate_advice (label er))"
proof -
  have q: "check_ai_quota (django_settings e) (date_today e) (timezone_now e) (profile s) = (None, p)"
    using assms(1,2,5) by (simp add: check_ai_quota_def Let_def)
  obtain posted where
    h: "HFClient_analyze_emotion (HUGGINGFACE_API_TOKEN (django_settings e)) (hf_service e) txt
           (hf_requests s) = (er, posted)"
    using assms(4)
    by (cases "HFClient_analyze_emotion (HUGGINGFACE_API_TOKEN (django_settings e)) (hf_service e)
                 txt (hf_requests s)") simp
  have t: "take 1000 txt = txt"
    using assms(7) by simp
  have i: "py_int (score er * 10) =
      (if 0 \<le> score er then \<lfloor>score er * 10\<rfloor> else \<lceil>score er * 10\<rceil>)"
    by (simp add: py_int_def)
  from analyze_emotion_accepted [OF q assms(3) assms(6) assms(7) h]
  show ?thesis
    using assms(8) unfolding t i by fastforce
qed

text \<open>
  The request of the repository's test with a mood: score 0.95 gives intensity 9.
\<close>

theorem persisted_mood_log_entry_witness:
  "mood_logs (snd (analyze_emotion
     \<lparr>django_settings = \<lparr>FREE_DAILY_AI_CALLS = 5, PREMIUM_DAILY_AI_CALLS = 200,
                          HUGGINGFACE_API_TOKEN = Some ''hf_token''\<rparr>,
      date_today = 20, timezone_now = 500,
      hf_service = (\<lambda>t. Json (JList [JList [entry (''joy'', 95 / 100)]]))\<rparr>
     \<lparr>data_text = Some ''I'm feeling amazing today!'', data_mood = Some ''happy'',
      data_persist = True\<rparr>
     \<lparr>profile = \<lparr>plan = ''FREE'', premium_expires_at = None, daily_ai_calls = 0,
                  last_ai_calls_reset = None\<rparr>,
      mood_logs = [], hf_requests = []\<rparr>))
   = [\<lparr>mood = ''happy'', intensity = 9, mood_note = ''I'm feeling amazing today!'',
       detected_emotion = ''joy'', detected_confidence = 95 / 100,
       advice = generate_advice ''joy''\<rparr>]"
proof -
  let ?e = "\<lparr>django_settings = \<lparr>FREE_DAILY_AI_CALLS = 5, PREMIUM_DAILY_AI_CALLS = 200,
                          HUGGINGFACE_API_TOKEN = Some ''hf_token''\<rparr>,
      date_today = 20, timezone_now = 500,
      hf_service = (\<lambda>t. Json (JList [JList [entry (''joy'', 95 / 100)]]))\<rparr>"
  let ?s = "\<lparr>profile = \<lparr>plan = ''FREE'', premium_expires_at = None, daily_ai_calls = 0,
                  last_ai_calls_reset = None\<rparr>,
      mood_logs = [], hf_requests = []\<rparr>"
  let ?r = "\<lparr>data_text = Some ''I'm feeling amazing today!'', data_mood = Some ''happy'',
      data_persist = True\<rparr>"
  have strip: "str_strip ''I'm feeling amazing today!'' = ''I'm feeling amazing today!''"
    by code_simp
  have er: "fst (HFClient_analyze_emotion (Some ''hf_token'')
              (\<lambda>t. Json (JList [JList [entry (''joy'', 95 / 100)]]))
              ''I'm feeling amazing today!'' [])
            = \<lparr>label = ''joy'', score = 95 / 100, ai_unavailable = None\<rparr>"
    by code_simp
  have fl: "\<lfloor>95 / 100 * 10 :: rat\<rfloor> = 9"
    by (simp add: floor_eq_iff)
  show ?thesis
    using persisted_mood_log_entry_truncates_the_score [OF refl refl refl refl, of ?e ?s ?r]
    by (simp add: ensure_daily_reset_def is_premium_active_def strip er [simplified]
          fl [simplified])
qed

text \<open>
  C7 as stated fails: for the score 0.96 the intensity of the entry is 9, while
  clamp(round(0.96 * 10), 1, 10) is 10.
\<close>

theorem persisted_intensity_is_not_rounded_counterexample:
  "map intensity (mood_logs (snd (analyze_emotion
     \<lparr>django_settings = \<lparr>FREE_DAILY_AI_CALLS = 5, PREMIUM_DAILY_AI_CALLS = 200,
                          HUGGINGFACE_API_TOKEN = Some ''hf_token''\<rparr>,
      date_today = 20, timezone_now = 500,
      hf_service = (\<lambda>t. Json (JList [JList [entry (''joy'', 96 / 100)]]))\<rparr>
     \<lparr>data_text = Some ''I'm feeling amazing today!'', data_mood = None, data_persist = True\<rparr>
     \<lparr>profile = \<lparr>plan = ''FREE'', premium_expires_at = None, daily_ai_calls = 0,
                  last_ai_calls_reset = None\<rparr>,
      mood_logs = [], hf_requests = []\<rparr>))) = [9]
   \<and> map detected_confidence (mood_logs (snd (analyze_emotion
     \<lparr>django_settings = \<lparr>FREE_DAILY_AI_CALLS = 5, PREMIUM_DAILY_AI_CALLS = 200,
                          HUGGINGFACE_API_TOKEN = Some ''hf_token''\<rparr>,
      date_today = 20, timezone_now = 500,
      hf_service = (\<lambda>t. Json (JList [JList [entry (''joy'', 96 / 100)]]))\<rparr>
     \<lparr>data_text = Some ''I'm feeling amazing today!'', data_mood = None, data_persist = True\<rparr>
     \<lparr>profile = \<lparr>plan = ''FREE'', premium_expires_at = None, daily_ai_calls = 0,
                  last_ai_calls_reset = None\<rparr>,
      mood_logs = [], hf_requests = []\<rparr>))) = [96 / 100]
   \<and> min 10 (max 1 (round (96 / 100 * 10 :: rat))) = 10"
proof -
  have "min 10 (max 1 (round (96 / 100 * 10 :: rat))) = 10"
    by (simp add: round_def floor_eq_iff)
  moreover have "map intensity (mood_logs (snd (analyze_emotion
     \<lparr>django_settings = \<lparr>FREE_DAILY_AI_CALLS = 5, PREMIUM_DAILY_AI_CALLS = 200,
                          HUGGINGFACE_API_TOKEN = Some ''hf_token''\<rparr>,
      date_today = 20, timezone_now = 500,
      hf_service = (\<lambda>t. Json (JList [JList [entry (''joy'', 96 / 100)]]))\<rparr>
     \<lparr>data_text = Some ''I'm feeling amazing today!'', data_mood = None, data_persist = True\<rparr>
     \<lparr>profile = \<lparr>plan = ''FREE'', premium_expires_at = None, daily_ai_calls = 0,
                  last_ai_calls_reset = None\<rparr>,
      mood_logs = [], hf_requests = []\<rparr>))) = [9]"
    by code_simp
  moreover have "map detected_confidence (mood_logs (snd (analyze_emotion
     \<lparr>django_settings = \<lparr>FREE_DAILY_AI_CALLS = 5, PREMIUM_DAILY_AI_CALLS = 200,
                          HUGGINGFACE_API_TOKEN = Some ''hf_token''\<rparr>,
      date_today = 20, timezone_now = 500,
      hf_service = (\<lambda>t. Json (JList [JList [entry (''joy'', 96 / 100)]]))\<rparr>
     \<lparr>data_text = Some ''I'm feeling amazing today!'', data_mood = None, data_persist = True\<rparr>
     \<lparr>profile = \<lparr>plan = ''FREE'', premium_expires_at = None, daily_ai_calls = 0,
                  last_ai_calls_reset = None\<rparr>,
      mood_logs = [], hf_requests = []\<rparr>))) = [96 / 100]"
    by code_simp
  ultimately show ?thesis by blast
qed


end
